theory Spec2Isabelle
  imports Main "HOL-Library.Sublist" "HOL-Library.AList"
begin

section \<open>Strings\<close>

text \<open>
  A JavaScript string is a sequence of UTF-16 code units. The model covers the strings
  whose code units are all below 256 (ASCII and Latin-1): a \<^typ>\<open>char\<close> is one such
  code unit and a \<^typ>\<open>string\<close> is the sequence. Text with code units from 256 on is
  outside the model.

  \<open>String.prototype.toLowerCase\<close> maps, in that range, \<open>A..Z\<close> (65..90) and the
  Latin-1 capitals (192..222 without the multiplication sign 215) to the code unit 32
  higher, and nothing else.
\<close>

definition toLowerChar :: "char \<Rightarrow> char" where
  "toLowerChar c =
     (let n = (of_char c :: nat)
      in if (65 \<le> n \<and> n \<le> 90) \<or> (192 \<le> n \<and> n \<le> 222 \<and> n \<noteq> 215)
         then char_of (n + 32) else c)"

definition toLowerCase :: "string \<Rightarrow> string" where
  "toLowerCase s = map toLowerChar s"

text \<open>
  \<open>toUpperCase\<close> is only ever applied by \<open>cap\<close> to the first character of a word of the
  constant tables below, all of them lower-case ASCII: the model maps \<open>a..z\<close> to \<open>A..Z\<close>.
\<close>

definition toUpperChar :: "char \<Rightarrow> char" where
  "toUpperChar c =
     (let n = (of_char c :: nat)
      in if 97 \<le> n \<and> n \<le> 122 then char_of (n - 32) else c)"

text \<open>\<open>function cap(s) { return s.charAt(0).toUpperCase() + s.slice(1); }\<close>\<close>

fun cap :: "string \<Rightarrow> string" where
  "cap [] = []"
| "cap (c # cs) = toUpperChar c # cs"

text \<open>\<open>text.includes(w)\<close>: \<open>w\<close> occurs in \<open>text\<close> as a contiguous substring.\<close>

definition js_includes :: "string \<Rightarrow> string \<Rightarrow> bool" where
  "js_includes text w = sublist w text"

text \<open>\<open>xs.join(sep)\<close>\<close>

fun join :: "string \<Rightarrow> string list \<Rightarrow> string" where
  "join sep [] = []"
| "join sep [x] = x"
| "join sep (x # y # ys) = x @ sep @ join sep (y # ys)"

text \<open>
  A regular expression that is an alternation of literal phrases, tested with
  \<open>re.test(text)\<close>, holds exactly when one of the phrases occurs in the text.
\<close>

definition test_any :: "string list \<Rightarrow> string \<Rightarrow> bool" where
  "test_any phrases text = list_ex (js_includes text) phrases"

text \<open>
  \<open>occurrences(text, needle)\<close> builds a global regular expression from the needle with
  every regex metacharacter escaped, so the pattern matches the needle literally, and
  returns the number of matches of \<open>text.match(re)\<close>: the matches are found from left to
  right, and the search resumes behind each match. An empty pattern matches once at
  every position, the end included.
\<close>

fun occurrences :: "string \<Rightarrow> string \<Rightarrow> nat" where
  "occurrences text [] = length text + 1"
| "occurrences [] (c # cs) = 0"
| "occurrences (t # ts) (c # cs) =
     (if prefix (c # cs) (t # ts) then 1 + occurrences (drop (length cs) ts) (c # cs)
      else occurrences ts (c # cs))"

section \<open>Sets of strings\<close>

text \<open>
  A JavaScript \<open>Set\<close> keeps its elements in the order of their first insertion; it is
  modelled by a list without duplicates. \<open>add\<close> is the source's helper of that name,
  \<open>set_delete\<close> is \<open>Set.prototype.delete\<close>, membership is \<open>has\<close> and the length is \<open>size\<close>.
\<close>

definition add :: "string list \<Rightarrow> string \<Rightarrow> string list" where
  "add items v = (if v \<in> set items then items else items @ [v])"

definition set_delete :: "string list \<Rightarrow> string \<Rightarrow> string list" where
  "set_delete items v = removeAll v items"

section \<open>Data model\<close>

datatype Role = User | Assistant

record Message =
  role :: Role
  content :: string

datatype QuestionKey = Feels | Style | Plants | Use | Maintenance | Sun | Climate | Constraints

text \<open>The string each key is at run time.\<close>

fun key_name :: "QuestionKey \<Rightarrow> string" where
  "key_name Feels = ''feels''"
| "key_name Style = ''style''"
| "key_name Plants = ''plants''"
| "key_name Use = ''use''"
| "key_name Maintenance = ''maintenance''"
| "key_name Sun = ''sun''"
| "key_name Climate = ''climate''"
| "key_name Constraints = ''constraints''"

definition QUESTION_ORDER :: "QuestionKey list" where
  "QUESTION_ORDER = [Feels, Style, Plants, Use, Maintenance, Sun, Climate, Constraints]"

text \<open>
  \<open>QUESTIONS\<close> is a \<open>Record<QuestionKey, Question>\<close> with an entry for each of the eight
  keys; \<open>QUESTIONS[key].text\<close> is the function below.
\<close>

fun QUESTIONS_text :: "QuestionKey \<Rightarrow> string" where
  "QUESTIONS_text Feels = ''Q-feels: What feelings should your garden evoke? (e.g., calm, cozy, vibrant, playful, refined)''"
| "QUESTIONS_text Style = ''Q-style: What garden styles do you gravitate to? (modern, cottage, Mediterranean, Japanese/Zen, desert/xeriscape, tropical, native/wildlife)''"
| "QUESTIONS_text Plants = ''Q-plants: Any plants you love or dislike? (e.g., lavender, grasses, succulents, ferns, roses, palms)''"
| "QUESTIONS_text Use = ''Q-use: How will you use the space? (entertaining, dining, kids, pets, quiet reading, growing food)''"
| "QUESTIONS_text Maintenance = ''Q-maintenance: How much upkeep is realistic? (low, medium, high)''"
| "QUESTIONS_text Sun = ''Q-sun: What sunlight do you get? (full sun, partial shade, mostly shade)''"
| "QUESTIONS_text Climate = ''Q-climate: Where are you located or what climate/USDA zone? (coastal, desert, tropical, temperate, cold)''"
| "QUESTIONS_text Constraints = ''Q-constraints: Any constraints? (small space, slope, HOA, water restrictions, budget)''"

text \<open>
  The own property names of the object \<open>QUESTIONS\<close>, and the property names every object
  literal inherits from \<open>Object.prototype\<close>: the operator \<open>in\<close> of \<open>key in QUESTIONS\<close>
  looks a name up along the prototype chain, so it holds for both.
\<close>

definition QUESTIONS_keys :: "string list" where
  "QUESTIONS_keys = map key_name [Feels, Style, Plants, Use, Maintenance, Sun, Climate, Constraints]"

definition OBJECT_PROTOTYPE_KEYS :: "string list" where
  "OBJECT_PROTOTYPE_KEYS =
     [''constructor'', ''hasOwnProperty'', ''isPrototypeOf'', ''propertyIsEnumerable'',
      ''toLocaleString'', ''toString'', ''valueOf'', ''__proto__'',
      ''__defineGetter__'', ''__defineSetter__'', ''__lookupGetter__'', ''__lookupSetter__'']"

definition in_QUESTIONS :: "string \<Rightarrow> bool" where
  "in_QUESTIONS key = (key \<in> set QUESTIONS_keys \<or> key \<in> set OBJECT_PROTOTYPE_KEYS)"

text \<open>
  A JavaScript number holding an occurrence count is an \<^typ>\<open>int\<close>. The style scores
  are a \<open>Record<string, number>\<close>: the list of its entries in the order \<open>Object.entries\<close>
  enumerates them. The three sets of words are insertion-ordered.
\<close>

record Analysis =
  styles :: "(string \<times> int) list"
  mood :: "string list"
  likedPlants :: "string list"
  dislikedPlants :: "string list"
  usage :: "string list"
  maintenance :: "string option"
  sunlight :: "string option"
  climate :: "string option"
  constraints :: "string list"
  hasKidsOrPets :: bool

record GardenSummary =
  styles :: "string list"
  moodWords :: "string list"
  plantPalette :: "string list"
  features :: "string list"
  usagePlan :: "string list"
  sunlight :: "string option"
  maintenance :: "string option"
  climate :: "string option"
  notes_list :: "string list"

record AgentResult =
  done_flag :: bool
  nextQuestion :: "string option"
  summary :: "GardenSummary option"

section \<open>The keyword tables\<close>

definition STYLE_KEYWORDS :: "(string \<times> string list) list" where
  "STYLE_KEYWORDS =
     [(''Modern Minimal'', [''modern'', ''minimal'', ''clean'', ''structured'', ''architectural'', ''contemporary'']),
      (''Cottage Romantic'', [''cottage'', ''romantic'', ''whimsical'', ''english'', ''abundant'', ''flowers'']),
      (''Mediterranean Dry'', [''mediterranean'', ''olive'', ''terracotta'', ''dry'', ''drought'', ''sun-baked'']),
      (''Japanese Zen'', [''japanese'', ''zen'', ''calm'', ''raked'', ''maple'', ''stone'', ''moss'']),
      (''Desert Xeriscape'', [''desert'', ''xeriscape'', ''succulent'', ''cactus'', ''agave'']),
      (''Tropical Lush'', [''tropical'', ''lush'', ''palms'', ''banana'', ''exotic'']),
      (''Native Wildlife'', [''native'', ''wildlife'', ''pollinator'', ''meadow'', ''prairie''])]"

definition MOOD_WORDS :: "string list" where
  "MOOD_WORDS =
     [''calm'', ''cozy'', ''vibrant'', ''playful'', ''refined'', ''relaxed'', ''elegant'', ''wild'',
      ''formal'', ''romantic'', ''rustic'', ''serene'', ''lush'', ''minimal'']"

definition USAGE_WORDS :: "string list" where
  "USAGE_WORDS =
     [''entertaining'', ''dining'', ''kids'', ''children'', ''pets'', ''dog'', ''cat'', ''reading'',
      ''quiet'', ''food'', ''vegetable'', ''veggie'', ''bbq'', ''grill'', ''firepit'', ''hot tub'', ''pool'']"

definition CONSTRAINT_WORDS :: "string list" where
  "CONSTRAINT_WORDS =
     [''small'', ''tiny'', ''narrow'', ''slope'', ''steep'', ''hoa'', ''water restriction'', ''budget'',
      ''wind'', ''deer'', ''rabbit'', ''privacy'']"

definition SUN_MAP :: "(string \<times> string) list" where
  "SUN_MAP =
     [(''full sun'', ''full sun''),
      (''lots of sun'', ''full sun''),
      (''sunny'', ''full sun''),
      (''partial shade'', ''partial shade''),
      (''part shade'', ''partial shade''),
      (''dappled'', ''partial shade''),
      (''mostly shade'', ''shade''),
      (''shade'', ''shade'')]"

definition CLIMATE_WORDS :: "(string \<times> string list) list" where
  "CLIMATE_WORDS =
     [(''coastal'', [''coastal'', ''salt'', ''ocean'']),
      (''desert'', [''desert'', ''arid'', ''drought'']),
      (''tropical'', [''tropical'', ''humid'', ''rainforest'']),
      (''temperate'', [''temperate'', ''mild'']),
      (''cold'', [''cold'', ''alpine'', ''snow''])]"

definition PLANT_SYNONYMS :: "(string \<times> string list) list" where
  "PLANT_SYNONYMS =
     [(''lavender'', [''lavender'']),
      (''grasses'', [''grass'', ''grasses'', ''panicum'', ''miscanthus'']),
      (''succulents'', [''succulent'', ''succulents'', ''agave'', ''aloe'', ''sedum'']),
      (''ferns'', [''fern'', ''ferns'']),
      (''roses'', [''rose'', ''roses'']),
      (''palms'', [''palm'', ''palms'']),
      (''maples'', [''maple'', ''acer'']),
      (''conifers'', [''pine'', ''cedar'', ''spruce'', ''juniper'']),
      (''wildflowers'', [''wildflower'', ''echinacea'', ''rudbeckia'', ''salvia''])]"

section \<open>analyze\<close>

text \<open>
  \<open>messages.filter(m => m.role === "user").map(m => m.content.toLowerCase()).join("\n")\<close>:
  the text both \<open>analyze\<close> and \<open>runAgent\<close> compute.
\<close>

definition user_text :: "Message list \<Rightarrow> string" where
  "user_text messages =
     join [CHR 0x0A] (map (\<lambda>m. toLowerCase (content m)) (filter (\<lambda>m. role m = User) messages))"

text \<open>
  The scoring loops. The record starts with every style at 0; for each style and each
  of its words, \<open>styles[style] += count\<close>. Every style is a key of the record from the
  start, so the update changes an existing entry.
\<close>

definition score_words :: "string \<Rightarrow> (string \<times> int) list \<Rightarrow> string \<times> string list \<Rightarrow> (string \<times> int) list" where
  "score_words text scores entry =
     foldl (\<lambda>sc w. AList.map_entry (fst entry) (\<lambda>n. n + int (occurrences text w)) sc)
       scores (snd entry)"

definition score_styles :: "string \<Rightarrow> (string \<times> int) list" where
  "score_styles text =
     foldl (score_words text) (map (\<lambda>k. (k, 0)) (map fst STYLE_KEYWORDS)) STYLE_KEYWORDS"

text \<open>\<open>for (const w of WORDS) if (text.includes(w)) set.add(cap(w));\<close>\<close>

definition collect_words :: "string \<Rightarrow> string list \<Rightarrow> string list" where
  "collect_words text ws = foldl (\<lambda>s w. if js_includes text w then add s (cap w) else s) [] ws"

definition find_maintenance :: "string \<Rightarrow> string option" where
  "find_maintenance text =
     (if test_any [''low maintenance'', ''minimal maintenance'', ''no maintenance'', ''low upkeep''] text
      then Some ''low''
      else if test_any [''medium maintenance'', ''some upkeep''] text then Some ''medium''
      else if test_any [''high maintenance'', ''intensive maintenance'', ''love gardening''] text
      then Some ''high''
      else None)"

text \<open>\<open>for (const [k, v] of Object.entries(SUN_MAP)) if (text.includes(k)) sunlight = v;\<close>\<close>

definition find_sunlight :: "string \<Rightarrow> string option" where
  "find_sunlight text =
     foldl (\<lambda>s kv. if js_includes text (fst kv) then Some (snd kv) else s) None SUN_MAP"

definition find_climate :: "string \<Rightarrow> string option" where
  "find_climate text =
     foldl (\<lambda>s kv. if list_ex (js_includes text) (snd kv) then Some (fst kv) else s)
       None CLIMATE_WORDS"

definition liked_syn :: "string \<Rightarrow> string \<Rightarrow> bool" where
  "liked_syn text w =
     (js_includes text (''love '' @ w) \<or> js_includes text (''like '' @ w) \<or> js_includes text w)"

definition disliked_syn :: "string \<Rightarrow> string \<Rightarrow> bool" where
  "disliked_syn text w =
     (js_includes text (''dislike '' @ w) \<or> js_includes text (''hate '' @ w)
      \<or> js_includes text (''avoid '' @ w))"

text \<open>
  The loop over the plants pushes each plant, in table order, onto the list of the liked
  when one of its synonyms is liked, and onto the list of the disliked likewise.
\<close>

definition find_liked :: "string \<Rightarrow> string list" where
  "find_liked text =
     map (\<lambda>e. cap (fst e)) (filter (\<lambda>e. list_ex (liked_syn text) (snd e)) PLANT_SYNONYMS)"

definition find_disliked :: "string \<Rightarrow> string list" where
  "find_disliked text =
     map (\<lambda>e. cap (fst e)) (filter (\<lambda>e. list_ex (disliked_syn text) (snd e)) PLANT_SYNONYMS)"

definition analyze :: "Message list \<Rightarrow> Analysis" where
  "analyze messages =
     (let text = user_text messages
      in \<lparr> Analysis.styles = score_styles text,
           mood = collect_words text MOOD_WORDS,
           likedPlants = find_liked text,
           dislikedPlants = find_disliked text,
           usage = collect_words text USAGE_WORDS,
           Analysis.maintenance = find_maintenance text,
           Analysis.sunlight = find_sunlight text,
           Analysis.climate = find_climate text,
           constraints = collect_words text CONSTRAINT_WORDS,
           hasKidsOrPets = test_any [''kid'', ''child'', ''children'', ''pet'', ''dog'', ''cat''] text \<rparr>)"

section \<open>getAskedKeys\<close>

text \<open>\<open>\w\<close> of a regular expression without the unicode flag: \<open>[A-Za-z0-9_]\<close>.\<close>

definition is_word_char :: "char \<Rightarrow> bool" where
  "is_word_char c =
     (let n = (of_char c :: nat)
      in (48 \<le> n \<and> n \<le> 57) \<or> (65 \<le> n \<and> n \<le> 90) \<or> n = 95 \<or> (97 \<le> n \<and> n \<le> 122))"

text \<open>
  \<open>m.content.match(/^Q-(\w+):/)\<close>: the content starts with \<open>Q-\<close>, then comes a non-empty
  run of word characters, then a colon. A colon is no word character, so the run the
  group captures is the longest one. The result is the captured group, if any.
\<close>

definition match_tag :: "string \<Rightarrow> string option" where
  "match_tag s =
     (if prefix ''Q-'' s
      then (let rest = drop 2 s; key = takeWhile is_word_char rest
            in if key \<noteq> [] \<and> prefix '':'' (dropWhile is_word_char rest) then Some key else None)
      else None)"

text \<open>
  The set of the asked keys is typed \<open>Set<QuestionKey>\<close>, but the cast \<open>match[1] as
  QuestionKey\<close> checks nothing: at run time the set holds the strings for which
  \<open>key in QUESTIONS\<close> holds. \<open>asked_step\<close> is the body of the loop over the messages.
\<close>

definition asked_step :: "string list \<Rightarrow> Message \<Rightarrow> string list" where
  "asked_step asked m =
     (if role m \<noteq> Assistant then asked
      else (case match_tag (content m) of
              Some key \<Rightarrow> if in_QUESTIONS key then add asked key else asked
            | None \<Rightarrow> asked))"

definition getAskedKeys :: "Message list \<Rightarrow> string list" where
  "getAskedKeys messages = foldl asked_step [] messages"

section \<open>chooseNextKey\<close>

text \<open>\<open>!s\<close> for a \<open>string | null\<close>: \<open>null\<close> and the empty string are falsy.\<close>

definition falsy :: "string option \<Rightarrow> bool" where
  "falsy s = (s = None \<or> s = Some [])"

text \<open>The loop \<open>for (const key of QUESTION_ORDER) if (!asked.has(key)) return key;\<close>\<close>

definition first_unasked :: "string list \<Rightarrow> QuestionKey option" where
  "first_unasked asked = find (\<lambda>key. key_name key \<notin> set asked) QUESTION_ORDER"

text \<open>
  The return statement \<open>chooseNextKey\<close> leaves by: one of the five adaptive nudges, the
  loop over the fixed order, or the trailing \<open>return "constraints"\<close>.
\<close>

datatype Exit = Nudge | InOrder | Fallback

definition chooseNextKey_exit :: "string list \<Rightarrow> Analysis \<Rightarrow> QuestionKey \<times> Exit" where
  "chooseNextKey_exit asked a =
     (let needSun = falsy (Analysis.sunlight a);
          needMaint = falsy (Analysis.maintenance a);
          needClimate = falsy (Analysis.climate a);
          needPlants = (length (likedPlants a) = 0 \<and> length (dislikedPlants a) = 0)
      in if needPlants \<and> ''plants'' \<notin> set asked then (Plants, Nudge)
         else if hasKidsOrPets a \<and> ''use'' \<notin> set asked then (Use, Nudge)
         else if needSun \<and> ''sun'' \<notin> set asked then (Sun, Nudge)
         else if needMaint \<and> ''maintenance'' \<notin> set asked then (Maintenance, Nudge)
         else if needClimate \<and> ''climate'' \<notin> set asked then (Climate, Nudge)
         else (case first_unasked asked of
                 Some key \<Rightarrow> (key, InOrder)
               | None \<Rightarrow> (Constraints, Fallback)))"

definition chooseNextKey :: "string list \<Rightarrow> Analysis \<Rightarrow> QuestionKey" where
  "chooseNextKey asked a = fst (chooseNextKey_exit asked a)"

section \<open>synthesizeSummary\<close>

definition style_palette :: "string \<Rightarrow> string list" where
  "style_palette style =
     (if style = ''Modern Minimal'' then
        [''Evergreen structure: Buxus balls, Podocarpus, clipped yew'',
         ''Grasses: Miscanthus, Pennisetum for movement'',
         ''Monochrome perennials: White Agapanthus, Salvia, Gaura'']
      else if style = ''Cottage Romantic'' then
        [''Perennials: Lavender, Nepeta, Salvia, Echinacea, Foxglove'',
         ''Roses and climbers: David Austin roses, Clematis'',
         ''Soft grasses: Deschampsia, Stipa tenuissima'']
      else if style = ''Mediterranean Dry'' then
        [''Drought-tolerant: Olive, Rosemary, Lavender, Santolina'',
         ''Silvery foliage: Helichrysum, Artemisia'',
         ''Herbs and citrus in terracotta'']
      else if style = ''Japanese Zen'' then
        [''Structure: Japanese maple, Bamboo (clumping), Pine cloud-pruned'',
         ''Ground: Moss, Ophiopogon, Ferns'',
         ''Accents: Irises, Azaleas'']
      else if style = ''Desert Xeriscape'' then
        [''Succulents: Agave, Aloe, Echeveria, Opuntia'',
         ''Cacti & yucca; gravel mulch'',
         ''Heat-lovers: Red hot poker, Verbena bonariensis'']
      else if style = ''Tropical Lush'' then
        [''Foliage drama: Bananas, Colocasia, Alocasia, Philodendron (hardy types)'',
         ''Palms: Trachycarpus, Chamaerops'',
         ''Bold color: Canna, Hibiscus'']
      else if style = ''Native Wildlife'' then
        [''Natives: Echinacea, Rudbeckia, Solidago, Asclepias'',
         ''Grasses: Little bluestem, Switchgrass'',
         ''Shrubs: Serviceberry, Viburnum'']
      else [])"

text \<open>\<open>if (cond) add(items, v);\<close>\<close>

definition add_if :: "bool \<Rightarrow> string \<Rightarrow> string list \<Rightarrow> string list" where
  "add_if cond v items = (if cond then add items v else items)"

definition sunlight_palette :: "string option \<Rightarrow> string list \<Rightarrow> string list" where
  "sunlight_palette sun items =
     (if sun = Some ''shade'' then add items ''Shade lovers: Hosta, Ferns, Heuchera, Astilbe, Hellebore''
      else if sun = Some ''partial shade''
      then add items ''Part-shade adaptable: Hydrangea, Heucherella, Brunnera, Tiarella''
      else if sun = Some ''full sun''
      then add items ''Sun lovers: Salvia, Nepeta, Gaura, Coreopsis, Achillea''
      else items)"

text \<open>
  \<open>buildPalette\<close> up to the comment \<open>Respect likes/dislikes\<close> and the loop that adds
  the liked plants: everything the function adds to the set.
\<close>

definition palette_additions :: "string list \<Rightarrow> Analysis \<Rightarrow> string list" where
  "palette_additions styles' a =
     (let items0 = foldl (\<lambda>items style. foldl add items (style_palette style)) [] styles';
          items1 = sunlight_palette (Analysis.sunlight a) items0;
          items2 = add_if (Analysis.maintenance a = Some ''low'')
                     ''Low-maintenance backbone: evergreen shrubs, groundcovers, mulch'' items1;
          items3 = add_if (Analysis.climate a = Some ''coastal'')
                     ''Coastal tolerant: Armeria, Sea kale, Escallonia'' items2;
          items4 = add_if (Analysis.climate a = Some ''cold'')
                     ''Cold-hardy focus: conifers, grasses, perennials to zone'' items3;
          items5 = add_if (Analysis.climate a = Some ''desert'')
                     ''Ultra drought: Agastache, Salvia greggii, Teucrium'' items4
      in foldl add items5 (likedPlants a))"

text \<open>Then \<open>for (const dislike of a.dislikedPlants) items.delete(dislike);\<close>\<close>

definition buildPalette :: "string list \<Rightarrow> Analysis \<Rightarrow> string list" where
  "buildPalette styles' a = foldl set_delete (palette_additions styles' a) (dislikedPlants a)"

text \<open>The five tests of the loop over the usage phrases, each on \<open>u.toLowerCase()\<close>.\<close>

definition usage_features :: "string list \<Rightarrow> string \<Rightarrow> string list" where
  "usage_features items u =
     (let l = toLowerCase u;
          items1 = add_if (test_any [''entertain'', ''dining'', ''bbq'', ''grill''] l)
                     ''Dining terrace near kitchen and grill zone'' items;
          items2 = add_if (test_any [''firepit''] l) ''Fire pit with circular seating'' items1;
          items3 = add_if (test_any [''hot tub'', ''pool''] l)
                     ''Privacy planting around water features'' items2;
          items4 = add_if (test_any [''reading'', ''quiet''] l)
                     ''Quiet nook with bench and screening'' items3
      in add_if (test_any [''food'', ''vegetable'', ''veggie''] l)
           ''Compact raised beds for edibles'' items4)"

definition buildFeatures :: "string list \<Rightarrow> Analysis \<Rightarrow> string list" where
  "buildFeatures styles' a =
     (let i1 = add_if (''Modern Minimal'' \<in> set styles')
                 ''Clean pavers with steel edging and lighting'' [];
          i2 = add_if (''Cottage Romantic'' \<in> set styles')
                 ''Meandering path, arch with climbers, rustic seating'' i1;
          i3 = add_if (''Mediterranean Dry'' \<in> set styles')
                 ''Gravel terrace, terracotta pots, simple pergola'' i2;
          i4 = add_if (''Japanese Zen'' \<in> set styles')
                 ''Stone basin, gravel raked area, timber deck'' i3;
          i5 = add_if (''Desert Xeriscape'' \<in> set styles')
                 ''Rock garden mounds, boulders, decomposed granite'' i4;
          i6 = add_if (''Tropical Lush'' \<in> set styles')
                 ''Shaded seating, water feature, layered canopy'' i5;
          i7 = add_if (''Native Wildlife'' \<in> set styles')
                 ''Pollinator bed, bird bath, meadow edge'' i6;
          i8 = add_if (Analysis.maintenance a = Some ''low'')
                 ''Drip irrigation and weed-suppressing mulch'' i7;
          i9 = add_if (Analysis.sunlight a = Some ''full sun'')
                 ''Shade sail or pergola for hot afternoons'' i8;
          i10 = add_if (hasKidsOrPets a)
                  ''Durable lawn alternative and pet-safe, kid-friendly plants'' i9
      in if list_ex (\<lambda>u. test_any [''entertain'', ''dining'', ''bbq'', ''grill'', ''firepit'',
                                      ''hot tub'', ''pool'', ''reading'', ''quiet'', ''food'',
                                      ''vegetable''] (toLowerCase u)) (usage a)
         then foldl usage_features i10 (usage a)
         else i10)"

definition buildUsage :: "Analysis \<Rightarrow> string list" where
  "buildUsage a =
     (let out1 = foldl add [] (usage a);
          out2 = add_if (hasKidsOrPets a) ''Safe play and pet circulation considered'' out1
      in add_if (length out2 = 0) ''Relaxation and light entertaining'' out2)"

text \<open>
  \<open>Object.entries(a.styles).sort((a,b) => b[1] - a[1])\<close>: \<open>Array.prototype.sort\<close> is
  stable, so the entries come out by descending score, entries of equal score in the
  order of the record. \<open>sort_key\<close> on the negated score is that sort.
\<close>

definition stylesRanked :: "(string \<times> int) list \<Rightarrow> (string \<times> int) list" where
  "stylesRanked entries = sort_key (\<lambda>e. - snd e) entries"

definition top_styles :: "(string \<times> int) list \<Rightarrow> string list" where
  "top_styles entries = map fst (take 2 (filter (\<lambda>e. snd e > 0) (stylesRanked entries)))"

definition build_notes :: "Analysis \<Rightarrow> string list" where
  "build_notes a =
     (if length (dislikedPlants a) \<noteq> 0 then [''Avoid: '' @ join '', '' (dislikedPlants a)] else [])
     @ (if length (constraints a) \<noteq> 0 then [''Constraints: '' @ join '', '' (constraints a)] else [])"

definition synthesizeSummary :: "Analysis \<Rightarrow> GardenSummary" where
  "synthesizeSummary a =
     (let top = top_styles (Analysis.styles a);
          fallback = (if length top > 0 then top else [''Contemporary Natural'']);
          palette = buildPalette fallback a;
          feats = buildFeatures fallback a;
          usagePlan' = buildUsage a;
          mood' = mood a
      in \<lparr> GardenSummary.styles = fallback,
           moodWords = (if length mood' \<noteq> 0 then mood' else [''Calm'', ''Welcoming'']),
           plantPalette = palette,
           features = feats,
           usagePlan = usagePlan',
           GardenSummary.sunlight = Analysis.sunlight a,
           GardenSummary.maintenance = Analysis.maintenance a,
           GardenSummary.climate = Analysis.climate a,
           notes_list = build_notes a \<rparr>)"

section \<open>runAgent\<close>

definition END_PHRASES :: "string list" where
  "END_PHRASES = [''that'' @ [CHR 0x27] @ ''s all'', ''that is all'', ''enough'', ''done'', ''finish'']"

definition runAgent :: "Message list \<Rightarrow> AgentResult" where
  "runAgent messages =
     (let asked = getAskedKeys messages;
          analysis = analyze messages;
          userText = user_text messages;
          doneBySignal = test_any END_PHRASES userText;
          doneByCoverage = (length asked \<ge> 6)
      in if doneBySignal \<or> doneByCoverage
         then \<lparr> done_flag = True, nextQuestion = None,
                summary = Some (synthesizeSummary analysis) \<rparr>
         else \<lparr> done_flag = False,
                nextQuestion = Some (QUESTIONS_text (chooseNextKey asked analysis)),
                summary = None \<rparr>)"

section \<open>Example conversations\<close>

definition user_says :: "string \<Rightarrow> Message" where
  "user_says s = \<lparr> role = User, content = s \<rparr>"

definition assistant_says :: "string \<Rightarrow> Message" where
  "assistant_says s = \<lparr> role = Assistant, content = s \<rparr>"

definition ex_thats_all :: "Message list" where
  "ex_thats_all = [assistant_says (QUESTIONS_text Plants), user_says (''ok that'' @ [CHR 0x27] @ ''s all'')]"

definition ex_six_asked :: "Message list" where
  "ex_six_asked = map (\<lambda>k. assistant_says (QUESTIONS_text k)) [Plants, Sun, Maintenance, Climate, Feels, Style]"

definition ex_more_turns :: "Message list" where
  "ex_more_turns = [user_says ''I like ferns'', assistant_says ''Sorry, I hit a snag. Please try again.'']"

definition ex_roses :: "Message list" where
  "ex_roses = [user_says ''I hate roses but love cottage gardens'']"

definition ex_ferns :: "Message list" where
  "ex_ferns = [assistant_says (QUESTIONS_text Plants), user_says ''I like ferns'']"

definition ex_ferns_other :: "Message list" where
  "ex_ferns_other = [user_says ''I like ferns'', assistant_says ''Q-sun: do you hate roses?'']"

definition ex_modern :: "Message list" where
  "ex_modern = [user_says ''I love modern minimal clean lines'']"

text \<open>
  Two user messages with capitals in the keywords, around an assistant message that
  names keywords of other styles.
\<close>

definition ex_two_messages :: "Message list" where
  "ex_two_messages =
     [user_says ''MODERN Minimal'', assistant_says ''Q-style: cottage, zen or tropical?'',
      user_says ''CLEAN lines, Modern'']"

text \<open>
  Three of the quick replies the page offers, sent one after the other, and the same
  conversation without the dislike.
\<close>

definition ex_dislike_roses :: "Message list" where
  "ex_dislike_roses =
     [user_says ''I dislike roses'', user_says ''Cottage & romantic'',
      user_says (''that'' @ [CHR 0x27] @ ''s all'')]"

definition ex_no_dislike :: "Message list" where
  "ex_no_dislike = [user_says ''Cottage & romantic'', user_says (''that'' @ [CHR 0x27] @ ''s all'')]"

definition ex_tie :: "Message list" where
  "ex_tie = [user_says ''Zen, cottage or modern? Stone and moss, I think'']"

definition ex_sun :: "Message list" where
  "ex_sun = [user_says ''Full sun in the morning'', assistant_says (QUESTIONS_text Sun),
             user_says ''Mostly shade after lunch'']"

definition ex_plants_asked :: "Message list" where
  "ex_plants_asked = [assistant_says (QUESTIONS_text Plants)]"

definition ex_feels_asked :: "Message list" where
  "ex_feels_asked = [assistant_says (QUESTIONS_text Feels)]"

text \<open>Six assistant messages tagged with names every object inherits.\<close>

definition ex_inherited :: "Message list" where
  "ex_inherited = map assistant_says
     [''Q-constructor:'', ''Q-toString:'', ''Q-valueOf:'', ''Q-hasOwnProperty:'',
      ''Q-isPrototypeOf:'', ''Q-toLocaleString:'']"

section \<open>The specification's notions\<close>

text \<open>The Analysis with no signal at all: every score 0, nothing matched.\<close>

definition no_signal :: Analysis where
  "no_signal =
     \<lparr> Analysis.styles = map (\<lambda>k. (k, 0)) (map fst STYLE_KEYWORDS),
       mood = [], likedPlants = [], dislikedPlants = [], usage = [],
       Analysis.maintenance = None, Analysis.sunlight = None, Analysis.climate = None,
       constraints = [], hasKidsOrPets = False \<rparr>"

text \<open>
  The last phrase of the map, in the order of its definition, that occurs in the text
  decides the sunlight; no phrase, no sunlight.
\<close>

definition last_matching_sun :: "string \<Rightarrow> string option" where
  "last_matching_sun text =
     (case rev (filter (\<lambda>kv. js_includes text (fst kv)) SUN_MAP) of
        [] \<Rightarrow> None
      | kv # _ \<Rightarrow> Some (snd kv))"

text \<open>
  The ranking of the styles as the specification words it. \<open>best_entry\<close> is the entry of
  the greatest score, the earliest one among those of equal score. The styles of the
  summary are the best entry of positive score and the best of the remaining ones,
  as far as they exist.
\<close>

fun best_entry :: "(string \<times> int) list \<Rightarrow> (string \<times> int) option" where
  "best_entry [] = None"
| "best_entry (e # es) =
     (case best_entry es of
        None \<Rightarrow> Some e
      | Some b \<Rightarrow> if snd e < snd b then Some b else Some e)"

definition spec_top_styles :: "(string \<times> int) list \<Rightarrow> string list" where
  "spec_top_styles entries =
     (let positive = filter (\<lambda>e. snd e > 0) entries
      in case best_entry positive of
           None \<Rightarrow> []
         | Some b1 \<Rightarrow>
             (case best_entry (remove1 b1 positive) of
                None \<Rightarrow> [fst b1]
              | Some b2 \<Rightarrow> [fst b1, fst b2]))"

text \<open>
  The number of occurrences of a word in a text: the number of positions of the text at
  which the word starts. A word has a border when a proper non-empty beginning of it is
  also its end; only such a word can overlap an occurrence of itself.
\<close>

fun count_positions :: "string \<Rightarrow> string \<Rightarrow> nat" where
  "count_positions [] w = (if w = [] then 1 else 0)"
| "count_positions (t # ts) w = (if prefix w (t # ts) then 1 else 0) + count_positions ts w"

definition has_border :: "string \<Rightarrow> bool" where
  "has_border w = list_ex (\<lambda>k. take k w = drop (length w - k) w) [1..<length w]"

section \<open>Substrings and the user text\<close>

lemma js_includes_mono: "js_includes t w \<Longrightarrow> prefix t t' \<Longrightarrow> js_includes t' w"
  unfolding js_includes_def
  by (meson prefix_imp_sublist sublist_order.order_trans)

lemma js_includes_suffix: "js_includes t (p @ w) \<Longrightarrow> js_includes t w"
  unfolding js_includes_def
  by (meson sublist_append_leftI sublist_order.order_trans)

lemma test_any_mono: "test_any ps t \<Longrightarrow> prefix t t' \<Longrightarrow> test_any ps t'"
  unfolding test_any_def list_ex_iff by (blast intro: js_includes_mono)

lemma join_append_prefix: "prefix (join sep xs) (join sep (xs @ ys))"
proof (induction sep xs rule: join.induct)
  case (1 sep)
  show ?case by simp
next
  case (2 sep x)
  show ?case by (cases ys) simp_all
next
  case (3 sep x y ys')
  then show ?case by simp
qed

lemma user_text_append_prefix: "prefix (user_text ms) (user_text (ms @ extra))"
  unfolding user_text_def by (simp add: join_append_prefix)

lemma user_text_cong:
  assumes "map content (filter (\<lambda>m. role m = User) ms1) = map content (filter (\<lambda>m. role m = User) ms2)"
  shows "user_text ms1 = user_text ms2"
proof -
  have "map (\<lambda>m. toLowerCase (content m)) (filter (\<lambda>m. role m = User) ms)
      = map toLowerCase (map content (filter (\<lambda>m. role m = User) ms))" for ms
    by simp
  then show ?thesis
    unfolding user_text_def using assms by metis
qed

section \<open>The asked keys and completion\<close>

lemma length_add: "length asked \<le> length (add asked k)"
  by (simp add: add_def)

lemma getAskedKeys_append:
  "getAskedKeys (ms @ extra) = foldl asked_step (getAskedKeys ms) extra"
  unfolding getAskedKeys_def by simp

lemma length_asked_step: "length asked \<le> length (asked_step asked m)"
  by (simp add: asked_step_def length_add split: option.splits)

lemma length_foldl_asked_step: "length asked \<le> length (foldl asked_step asked ms)"
proof (induction ms arbitrary: asked)
  case Nil
  show ?case by simp
next
  case (Cons m ms)
  have "length asked \<le> length (asked_step asked m)"
    by (rule length_asked_step)
  also have "\<dots> \<le> length (foldl asked_step (asked_step asked m) ms)"
    by (rule Cons.IH)
  finally show ?case by simp
qed

text \<open>The list of the asked keys has no duplicates: its length is the size of the set.\<close>

lemma distinct_add: "distinct items \<Longrightarrow> distinct (add items v)"
  by (simp add: add_def)

lemma distinct_asked_step: "distinct asked \<Longrightarrow> distinct (asked_step asked m)"
  by (simp add: asked_step_def distinct_add split: option.splits)

lemma distinct_foldl_asked_step: "distinct asked \<Longrightarrow> distinct (foldl asked_step asked ms)"
  by (induction ms arbitrary: asked) (simp_all add: distinct_asked_step)

lemma distinct_getAskedKeys: "distinct (getAskedKeys ms)"
  unfolding getAskedKeys_def by (rule distinct_foldl_asked_step) simp

lemma getAskedKeys_size: "length (getAskedKeys ms) = card (set (getAskedKeys ms))"
  by (simp add: distinct_card distinct_getAskedKeys)

lemma runAgent_done_iff:
  "done_flag (runAgent ms) \<longleftrightarrow>
     test_any END_PHRASES (user_text ms) \<or> 6 \<le> length (getAskedKeys ms)"
  by (simp add: runAgent_def Let_def)

text \<open>
  Claim C4. Completion is monotonic under appending messages: when \<open>runAgent\<close> returns
  \<open>done = true\<close> on a message list, it returns \<open>done = true\<close> on every extension of the
  list by further messages. The user text of the list is a prefix of the user text of
  the extension, so an end phrase stays in it, and the loop of \<open>getAskedKeys\<close> only ever
  adds to the set of the asked keys.
\<close>

theorem C4_completion_monotonic:
  "done_flag (runAgent ms) \<Longrightarrow> done_flag (runAgent (ms @ extra))"
proof -
  assume "done_flag (runAgent ms)"
  then consider (signal) "test_any END_PHRASES (user_text ms)"
    | (coverage) "6 \<le> length (getAskedKeys ms)"
    by (auto simp: runAgent_done_iff)
  then show ?thesis
  proof cases
    case signal
    then have "test_any END_PHRASES (user_text (ms @ extra))"
      by (rule test_any_mono) (rule user_text_append_prefix)
    then show ?thesis by (simp add: runAgent_done_iff)
  next
    case coverage
    have "length (getAskedKeys ms) \<le> length (getAskedKeys (ms @ extra))"
      by (simp add: getAskedKeys_append length_foldl_asked_step)
    with coverage show ?thesis by (simp add: runAgent_done_iff)
  qed
qed

theorem C4_completion_monotonic_witness:
  "done_flag (runAgent ex_thats_all) \<and> done_flag (runAgent (ex_thats_all @ ex_more_turns))
   \<and> done_flag (runAgent ex_six_asked) \<and> done_flag (runAgent (ex_six_asked @ ex_more_turns))"
proof -
  have h1: "done_flag (runAgent ex_thats_all)" by code_simp
  have h2: "done_flag (runAgent ex_six_asked)" by code_simp
  show ?thesis
    using h1 h2 C4_completion_monotonic [OF h1, of ex_more_turns]
      C4_completion_monotonic [OF h2, of ex_more_turns]
    by simp
qed

text \<open>
  Claim C8. \<open>analyze\<close> depends on the user-authored messages only: two message lists
  whose user messages have the same contents in the same order get the same Analysis,
  whatever the assistant messages say.
\<close>

theorem C8_analyze_user_only:
  "map content (filter (\<lambda>m. role m = User) ms1) = map content (filter (\<lambda>m. role m = User) ms2)
   \<Longrightarrow> analyze ms1 = analyze ms2"
proof -
  assume "map content (filter (\<lambda>m. role m = User) ms1)
        = map content (filter (\<lambda>m. role m = User) ms2)"
  then have "user_text ms1 = user_text ms2"
    by (rule user_text_cong)
  then show ?thesis by (simp add: analyze_def)
qed

theorem C8_analyze_user_only_witness:
  "map content (filter (\<lambda>m. role m = User) ex_ferns)
     = map content (filter (\<lambda>m. role m = User) ex_ferns_other)
   \<and> ex_ferns \<noteq> ex_ferns_other
   \<and> analyze ex_ferns = analyze ex_ferns_other"
proof -
  have h: "map content (filter (\<lambda>m. role m = User) ex_ferns)
         = map content (filter (\<lambda>m. role m = User) ex_ferns_other)"
    by (simp add: ex_ferns_def ex_ferns_other_def user_says_def assistant_says_def)
  have d: "ex_ferns \<noteq> ex_ferns_other"
    by (simp add: ex_ferns_def ex_ferns_other_def user_says_def assistant_says_def)
  from h d C8_analyze_user_only [OF h] show ?thesis by simp
qed

section \<open>The next question\<close>

lemma card_key_names: "card (key_name ` set QUESTION_ORDER) = 8"
  by (simp add: QUESTION_ORDER_def)

lemma first_unasked_found: "card (set asked) < 6 \<Longrightarrow> first_unasked asked \<noteq> None"
proof
  assume few: "card (set asked) < 6" and none: "first_unasked asked = None"
  from none have "key_name ` set QUESTION_ORDER \<subseteq> set asked"
    by (auto simp: first_unasked_def find_None_iff)
  then have "card (key_name ` set QUESTION_ORDER) \<le> card (set asked)"
    by (intro card_mono) simp_all
  with few show False by (simp add: card_key_names)
qed

lemma no_fallback: "card (set asked) < 6 \<Longrightarrow> snd (chooseNextKey_exit asked a) \<noteq> Fallback"
  using first_unasked_found [of asked]
  by (auto simp: chooseNextKey_exit_def Let_def split: option.splits)

text \<open>
  Claim C9. The trailing \<open>return "constraints"\<close> of \<open>chooseNextKey\<close> is not reached when
  \<open>runAgent\<close> calls it. With fewer than 6 keys in the set of the asked, the loop over
  the 8 keys of \<open>QUESTION_ORDER\<close> finds one that has not been asked, so \<open>chooseNextKey\<close>
  leaves by a nudge or by the loop; and \<open>runAgent\<close> selects a question only when the
  set of the asked has fewer than 6 elements.
\<close>

theorem C9_fallback_unreachable:
  "(length asked < 6 \<longrightarrow>
      first_unasked asked \<noteq> None \<and> snd (chooseNextKey_exit asked a) \<noteq> Fallback)
   \<and> (\<not> done_flag (runAgent ms) \<longrightarrow>
        length (getAskedKeys ms) < 6
        \<and> snd (chooseNextKey_exit (getAskedKeys ms) (analyze ms)) \<noteq> Fallback)"
proof -
  have few: "card (set xs) < 6" if "length xs < 6" for xs :: "string list"
    using that card_length [of xs] by simp
  have "length (getAskedKeys ms) < 6" if "\<not> done_flag (runAgent ms)"
    using that by (simp add: runAgent_done_iff)
  with few show ?thesis
    by (simp add: first_unasked_found no_fallback)
qed


theorem C9_fallback_unreachable_witness:
  "length [''plants'', ''sun'', ''maintenance'', ''climate'', ''feels''] < 6
   \<and> first_unasked [''plants'', ''sun'', ''maintenance'', ''climate'', ''feels''] \<noteq> None
   \<and> snd (chooseNextKey_exit [''plants'', ''sun'', ''maintenance'', ''climate'', ''feels'']
            (analyze ex_ferns)) \<noteq> Fallback
   \<and> \<not> done_flag (runAgent ex_ferns)
   \<and> length (getAskedKeys ex_ferns) < 6
   \<and> snd (chooseNextKey_exit (getAskedKeys ex_ferns) (analyze ex_ferns)) \<noteq> Fallback"
proof -
  have h1: "length [''plants'', ''sun'', ''maintenance'', ''climate'', ''feels''] < 6" by simp
  have h2: "\<not> done_flag (runAgent ex_ferns)" by code_simp
  from h1 h2
    C9_fallback_unreachable
      [of "[''plants'', ''sun'', ''maintenance'', ''climate'', ''feels'']" "analyze ex_ferns" ex_ferns]
  show ?thesis by blast
qed

section \<open>Liked and disliked plants\<close>

lemma disliked_imp_liked: "disliked_syn t w \<Longrightarrow> liked_syn t w"
  unfolding disliked_syn_def liked_syn_def by (blast intro: js_includes_suffix)

text \<open>
  Claim C10. Every plant in the list of the disliked is in the list of the liked too:
  where \<open>dislike w\<close>, \<open>hate w\<close> or \<open>avoid w\<close> occurs in the user text, the bare synonym
  \<open>w\<close> occurs, and the test for a liked plant accepts any occurrence of a synonym.
\<close>

theorem C10_disliked_also_liked:
  "p \<in> set (dislikedPlants (analyze ms)) \<Longrightarrow> p \<in> set (likedPlants (analyze ms))"
  by (auto simp: analyze_def Let_def find_liked_def find_disliked_def list_ex_iff
      intro: disliked_imp_liked)

theorem C10_disliked_also_liked_witness:
  "''Roses'' \<in> set (dislikedPlants (analyze ex_roses))
   \<and> ''Roses'' \<in> set (likedPlants (analyze ex_roses))"
proof -
  have h: "''Roses'' \<in> set (dislikedPlants (analyze ex_roses))" by code_simp
  from h C10_disliked_also_liked [OF h] show ?thesis by simp
qed

section \<open>Sunlight\<close>

lemma foldl_last_match:
  "foldl (\<lambda>s kv. if P kv then Some (g kv) else s) s0 xs =
     (case rev (filter P xs) of [] \<Rightarrow> s0 | kv # _ \<Rightarrow> Some (g kv))"
  by (induction xs arbitrary: s0) (auto split: list.splits)

lemma find_sunlight_last: "find_sunlight text = last_matching_sun text"
  unfolding find_sunlight_def last_matching_sun_def by (rule foldl_last_match)

lemma find_sunlight_none:
  "list_all (\<lambda>kv. \<not> js_includes text (fst kv)) SUN_MAP \<Longrightarrow> find_sunlight text = None"
  by (simp add: find_sunlight_last last_matching_sun_def list_all_iff)

lemma find_sunlight_shade: "js_includes text ''shade'' \<Longrightarrow> find_sunlight text = Some ''shade''"
  by (simp add: find_sunlight_def SUN_MAP_def)

text \<open>
  Claim C2. The sunlight of \<open>analyze\<close> is decided by the last phrase of \<open>SUN_MAP\<close>, in the
  order of its definition, that occurs in the lower-cased user text (a later entry
  overwrites an earlier one); when no phrase occurs the sunlight is null; and a text
  with both \<open>full sun\<close> and \<open>mostly shade\<close> in it gets the sunlight \<open>shade\<close>.
\<close>

theorem C2_sunlight_last_match:
  "Analysis.sunlight (analyze ms) = last_matching_sun (user_text ms)
   \<and> (list_all (\<lambda>kv. \<not> js_includes (user_text ms) (fst kv)) SUN_MAP
        \<longrightarrow> Analysis.sunlight (analyze ms) = None)
   \<and> (js_includes (user_text ms) ''full sun'' \<and> js_includes (user_text ms) ''mostly shade''
        \<longrightarrow> Analysis.sunlight (analyze ms) = Some ''shade'')"
proof -
  have s: "Analysis.sunlight (analyze ms) = find_sunlight (user_text ms)"
    by (simp add: analyze_def Let_def)
  have "js_includes (user_text ms) ''shade''" if "js_includes (user_text ms) ''mostly shade''"
    using js_includes_suffix [of "user_text ms" "''mostly ''" "''shade''"] that by simp
  then show ?thesis
    by (simp add: s find_sunlight_last [symmetric] find_sunlight_none find_sunlight_shade)
qed

theorem C2_sunlight_last_match_witness:
  "js_includes (user_text ex_sun) ''full sun'' \<and> js_includes (user_text ex_sun) ''mostly shade''
   \<and> Analysis.sunlight (analyze ex_sun) = Some ''shade''
   \<and> list_all (\<lambda>kv. \<not> js_includes (user_text ex_roses) (fst kv)) SUN_MAP
   \<and> Analysis.sunlight (analyze ex_roses) = None"
proof -
  have h1: "js_includes (user_text ex_sun) ''full sun''" by code_simp
  have h2: "js_includes (user_text ex_sun) ''mostly shade''" by code_simp
  have h3: "list_all (\<lambda>kv. \<not> js_includes (user_text ex_roses) (fst kv)) SUN_MAP" by code_simp
  from h1 h2 h3 C2_sunlight_last_match [of ex_sun] C2_sunlight_last_match [of ex_roses]
  show ?thesis by blast
qed

section \<open>The ranking of the styles\<close>

lemma best_entry_None: "best_entry es = None \<longleftrightarrow> es = []"
  by (cases es) (auto split: option.splits)

text \<open>The stable sort by descending score puts the best entry first.\<close>

lemma sort_key_best:
  "sort_key (\<lambda>e. - snd e) es =
     (case best_entry es of
        None \<Rightarrow> []
      | Some b \<Rightarrow> b # sort_key (\<lambda>e. - snd e) (remove1 b es))"
proof (induction es)
  case Nil
  show ?case by simp
next
  case (Cons e es)
  show ?case
  proof (cases "best_entry es")
    case None
    then have "es = []" by (simp add: best_entry_None)
    then show ?thesis by simp
  next
    case (Some b)
    with Cons.IH
    have sorted_es: "sort_key (\<lambda>e. - snd e) es = b # sort_key (\<lambda>e. - snd e) (remove1 b es)"
      by simp
    show ?thesis
    proof (cases "snd e < snd b")
      case True
      then have "b \<noteq> e" by auto
      with True Some sorted_es show ?thesis by simp
    next
      case False
      with Some sorted_es show ?thesis by simp
    qed
  qed
qed

lemma take2_ranked:
  "take 2 (sort_key (\<lambda>e. - snd e) es) =
     (case best_entry es of
        None \<Rightarrow> []
      | Some b1 \<Rightarrow> (case best_entry (remove1 b1 es) of None \<Rightarrow> [b1] | Some b2 \<Rightarrow> [b1, b2]))"
proof (cases "best_entry es")
  case None
  then show ?thesis by (simp add: best_entry_None)
next
  case (Some b1)
  then have first: "sort_key (\<lambda>e. - snd e) es = b1 # sort_key (\<lambda>e. - snd e) (remove1 b1 es)"
    using sort_key_best [of es] by simp
  show ?thesis
  proof (cases "best_entry (remove1 b1 es)")
    case None
    then have "remove1 b1 es = []" by (simp add: best_entry_None)
    with Some None first show ?thesis by simp
  next
    case inner: (Some b2)
    then have "sort_key (\<lambda>e. - snd e) (remove1 b1 es)
        = b2 # sort_key (\<lambda>e. - snd e) (remove1 b2 (remove1 b1 es))"
      using sort_key_best [of "remove1 b1 es"] by simp
    with Some inner first show ?thesis by simp
  qed
qed

lemma top_styles_spec: "top_styles entries = spec_top_styles entries"
  unfolding top_styles_def stylesRanked_def spec_top_styles_def Let_def filter_sort take2_ranked
  by (simp split: option.splits)

text \<open>
  Claim C5. For every analysis the styles of the summary are the at most two style
  names of strictly positive score, by descending score, entries of equal score in the
  order of the keys of the style record, and the single label \<open>Contemporary Natural\<close>
  when no score is positive; the mood words are the matched mood set, and the pair
  \<open>Calm\<close>, \<open>Welcoming\<close> when that set is empty.
\<close>

theorem C5_summary_styles_and_mood:
  "GardenSummary.styles (synthesizeSummary a) =
     (if spec_top_styles (Analysis.styles a) = [] then [''Contemporary Natural'']
      else spec_top_styles (Analysis.styles a))
   \<and> moodWords (synthesizeSummary a) =
     (if mood a = [] then [''Calm'', ''Welcoming''] else mood a)"
  by (simp add: synthesizeSummary_def Let_def top_styles_spec)

theorem C5_summary_styles_and_mood_witness:
  "Analysis.styles (analyze ex_tie) =
     [(''Modern Minimal'', 1), (''Cottage Romantic'', 1), (''Mediterranean Dry'', 0),
      (''Japanese Zen'', 3), (''Desert Xeriscape'', 0), (''Tropical Lush'', 0),
      (''Native Wildlife'', 0)]
   \<and> GardenSummary.styles (synthesizeSummary (analyze ex_tie)) = [''Japanese Zen'', ''Modern Minimal'']
   \<and> moodWords (synthesizeSummary (analyze ex_tie)) = [''Calm'', ''Welcoming'']
   \<and> GardenSummary.styles (synthesizeSummary no_signal) = [''Contemporary Natural'']"
proof -
  have h1: "Analysis.styles (analyze ex_tie) =
     [(''Modern Minimal'', 1), (''Cottage Romantic'', 1), (''Mediterranean Dry'', 0),
      (''Japanese Zen'', 3), (''Desert Xeriscape'', 0), (''Tropical Lush'', 0),
      (''Native Wildlife'', 0)]"
    by code_simp
  have h2: "spec_top_styles (Analysis.styles (analyze ex_tie)) = [''Japanese Zen'', ''Modern Minimal'']"
    unfolding h1 by code_simp
  have h3: "mood (analyze ex_tie) = []" by code_simp
  have h4: "spec_top_styles (Analysis.styles no_signal) = []" by code_simp
  from h1 h2 h3 h4 C5_summary_styles_and_mood [of "analyze ex_tie"]
    C5_summary_styles_and_mood [of no_signal]
  show ?thesis by simp
qed

section \<open>Style scoring\<close>

text \<open>
  The matches of the global regular expression do not overlap, so \<open>occurrences\<close> may
  count fewer than the positions at which the needle starts; for a needle without a
  border the two numbers agree.
\<close>

lemma count_positions_Nil: "count_positions str [] = length str + 1"
  by (induction str) simp_all

lemma count_positions_drop:
  "j < length str \<Longrightarrow>
     count_positions (drop j str) w =
       (if prefix w (drop j str) then 1 else 0) + count_positions (drop (Suc j) str) w"
  by (simp flip: Cons_nth_drop_Suc)

lemma no_match_inside:
  assumes "\<not> has_border w" "0 < j" "j < length w"
  shows "\<not> prefix w (drop j (w @ r))"
proof
  assume p: "prefix w (drop j (w @ r))"
  define k where "k = length w - j"
  from assms have k: "1 \<le> k" "k < length w" "j = length w - k" by (auto simp: k_def)
  from p have "prefix w (drop j w @ r)" using assms by simp
  then have "take k w = take k (drop j w @ r)"
    by (metis k(2) less_or_eq_imp_le prefix_length_le take_is_prefix prefix_order.order_trans
        append_eq_conv_conj prefixE take_take min.absorb1 order_refl)
  also have "\<dots> = drop j w" by (simp add: k_def)
  finally have "take k w = drop (length w - k) w" using k by simp
  with k have "has_border w" by (auto simp: has_border_def list_ex_iff)
  with assms show False by simp
qed

lemma skip_inside:
  assumes "\<not> has_border w" "1 \<le> j" "j \<le> length w"
  shows "count_positions (drop 1 (w @ r)) w = count_positions (drop j (w @ r)) w"
  using assms(2,3)
proof (induction j rule: dec_induct)
  case base
  show ?case by simp
next
  case (step n)
  then have "n < length (w @ r)" by simp
  then have "count_positions (drop n (w @ r)) w =
      (if prefix w (drop n (w @ r)) then 1 else 0) + count_positions (drop (Suc n) (w @ r)) w"
    by (rule count_positions_drop)
  moreover have "\<not> prefix w (drop n (w @ r))"
    using assms(1) step by (intro no_match_inside) simp_all
  ultimately show ?case using step by simp
qed

lemma occurrences_count_positions:
  "\<not> has_border w \<Longrightarrow> occurrences str w = count_positions str w"
proof (induction str w rule: occurrences.induct)
  case (1 str)
  show ?case by (simp add: count_positions_Nil)
next
  case (2 c cs)
  show ?case by simp
next
  case (3 t ts c cs)
  show ?case
  proof (cases "prefix (c # cs) (t # ts)")
    case True
    then obtain r where r: "t # ts = (c # cs) @ r" by (auto simp: prefix_def)
    have "count_positions (drop 1 ((c # cs) @ r)) (c # cs)
        = count_positions (drop (length (c # cs)) ((c # cs) @ r)) (c # cs)"
      using "3.prems" by (intro skip_inside) simp_all
    then have skip: "count_positions ts (c # cs) = count_positions (drop (length cs) ts) (c # cs)"
      unfolding r [symmetric] by simp
    have "occurrences (t # ts) (c # cs) = 1 + occurrences (drop (length cs) ts) (c # cs)"
      using True by (simp del: Cons_prefix_Cons)
    also have "\<dots> = 1 + count_positions (drop (length cs) ts) (c # cs)"
      using "3.IH"(1) [OF True "3.prems"] by simp
    also have "\<dots> = count_positions (t # ts) (c # cs)"
      using True skip by (simp del: Cons_prefix_Cons)
    finally show ?thesis .
  next
    case False
    have "occurrences (t # ts) (c # cs) = occurrences ts (c # cs)"
      using False by (simp del: Cons_prefix_Cons)
    also have "\<dots> = count_positions ts (c # cs)"
      using "3.IH"(2) [OF False "3.prems"] .
    also have "\<dots> = count_positions (t # ts) (c # cs)"
      using False by (simp del: Cons_prefix_Cons)
    finally show ?thesis .
  qed
qed

lemma keywords_border_free:
  "list_all (\<lambda>e. list_all (\<lambda>w. \<not> has_border w) (snd e)) STYLE_KEYWORDS"
  by code_simp


lemma score_styles_sum:
  "score_styles text =
     map (\<lambda>e. (fst e, sum_list (map (\<lambda>w. int (occurrences text w)) (snd e)))) STYLE_KEYWORDS"
  by (simp add: score_styles_def score_words_def STYLE_KEYWORDS_def)

text \<open>No keyword of the style table has a border.\<close>

lemma style_keyword_counts:
  "e \<in> set STYLE_KEYWORDS \<Longrightarrow> w \<in> set (snd e) \<Longrightarrow> occurrences str w = count_positions str w"
  using keywords_border_free by (auto simp: list_all_iff intro: occurrences_count_positions)

lemma score_styles_positions:
  "score_styles str =
     map (\<lambda>e. (fst e, sum_list (map (\<lambda>w. int (count_positions str w)) (snd e)))) STYLE_KEYWORDS"
proof -
  have "sum_list (map (\<lambda>w. int (occurrences str w)) (snd e))
      = sum_list (map (\<lambda>w. int (count_positions str w)) (snd e))"
    if "e \<in> set STYLE_KEYWORDS" for e
  proof -
    have "map (\<lambda>w. int (occurrences str w)) (snd e) = map (\<lambda>w. int (count_positions str w)) (snd e)"
      using that by (intro map_cong) (simp_all add: style_keyword_counts)
    then show ?thesis by (rule arg_cong)
  qed
  then show ?thesis
    unfolding score_styles_sum by (intro map_cong) simp_all
qed


text \<open>
  Claim C7. The score of a style is the sum, over the keywords of the style, of the
  number of literal occurrences of the keyword in the joined lower-cased user text: the
  number of matches the escaped regular expression finds, which for these keywords is
  the number of positions at which the keyword starts. The counting is case-insensitive
  and runs over all the user messages: for the user messages \<open>MODERN Minimal\<close> and
  \<open>CLEAN lines, Modern\<close>, around an assistant message that names other styles, the text
  scanned is \<open>modern minimal\<close>, a line break, \<open>clean lines, modern\<close>, the score of
  \<open>Modern Minimal\<close> is 4 and every other style scores 0. For the single user message
  \<open>I love modern minimal clean lines\<close> the score of \<open>Modern Minimal\<close> is 3 (so at
  least 3), every other style scores 0, and \<open>Modern Minimal\<close> comes first in the
  styles of the summary.
\<close>

theorem C7_style_scoring:
  "Analysis.styles (analyze ms) =
     map (\<lambda>e. (fst e, sum_list (map (\<lambda>w. int (occurrences (user_text ms) w)) (snd e))))
       STYLE_KEYWORDS
   \<and> Analysis.styles (analyze ms) =
     map (\<lambda>e. (fst e, sum_list (map (\<lambda>w. int (count_positions (user_text ms) w)) (snd e))))
       STYLE_KEYWORDS
   \<and> user_text ex_two_messages = ''modern minimal'' @ [CHR 0x0A] @ ''clean lines, modern''
   \<and> Analysis.styles (analyze ex_two_messages) =
       [(''Modern Minimal'', 4), (''Cottage Romantic'', 0), (''Mediterranean Dry'', 0),
        (''Japanese Zen'', 0), (''Desert Xeriscape'', 0), (''Tropical Lush'', 0),
        (''Native Wildlife'', 0)]
   \<and> GardenSummary.styles (synthesizeSummary (analyze ex_two_messages)) = [''Modern Minimal'']
   \<and> user_text ex_modern = ''i love modern minimal clean lines''
   \<and> Analysis.styles (analyze ex_modern) =
       [(''Modern Minimal'', 3), (''Cottage Romantic'', 0), (''Mediterranean Dry'', 0),
        (''Japanese Zen'', 0), (''Desert Xeriscape'', 0), (''Tropical Lush'', 0),
        (''Native Wildlife'', 0)]
   \<and> GardenSummary.styles (synthesizeSummary (analyze ex_modern)) = [''Modern Minimal'']"
proof -
  have scores: "Analysis.styles (analyze ms) = score_styles (user_text ms)"
    by (simp add: analyze_def Let_def)
  have general: "Analysis.styles (analyze ms) =
       map (\<lambda>e. (fst e, sum_list (map (\<lambda>w. int (occurrences (user_text ms) w)) (snd e))))
         STYLE_KEYWORDS
     \<and> Analysis.styles (analyze ms) =
       map (\<lambda>e. (fst e, sum_list (map (\<lambda>w. int (count_positions (user_text ms) w)) (snd e))))
         STYLE_KEYWORDS"
    unfolding scores using score_styles_sum score_styles_positions by (intro conjI)
  have two_text: "user_text ex_two_messages = ''modern minimal'' @ [CHR 0x0A] @ ''clean lines, modern''"
    by code_simp
  have two_scores: "Analysis.styles (analyze ex_two_messages) =
       [(''Modern Minimal'', 4), (''Cottage Romantic'', 0), (''Mediterranean Dry'', 0),
        (''Japanese Zen'', 0), (''Desert Xeriscape'', 0), (''Tropical Lush'', 0),
        (''Native Wildlife'', 0)]"
    by code_simp
  have two_ranked:
    "GardenSummary.styles (synthesizeSummary (analyze ex_two_messages)) = [''Modern Minimal'']"
    by code_simp
  have one_text: "user_text ex_modern = ''i love modern minimal clean lines''"
    by code_simp
  have one_scores: "Analysis.styles (analyze ex_modern) =
       [(''Modern Minimal'', 3), (''Cottage Romantic'', 0), (''Mediterranean Dry'', 0),
        (''Japanese Zen'', 0), (''Desert Xeriscape'', 0), (''Tropical Lush'', 0),
        (''Native Wildlife'', 0)]"
    by code_simp
  have one_ranked:
    "GardenSummary.styles (synthesizeSummary (analyze ex_modern)) = [''Modern Minimal'']"
    by code_simp
  from general two_text two_scores two_ranked one_text one_scores one_ranked
  show ?thesis by (intro conjI) (erule conjunct1 conjunct2 | assumption)+
qed

section \<open>The plant palette\<close>

lemma foldl_set_delete: "foldl set_delete items ds = filter (\<lambda>v. v \<notin> set ds) items"
proof (induction ds arbitrary: items)
  case Nil
  show ?case by simp
next
  case (Cons d ds)
  have "foldl set_delete items (d # ds) = filter (\<lambda>v. v \<notin> set ds) (set_delete items d)"
    by (simp add: Cons.IH)
  also have "\<dots> = filter (\<lambda>v. v \<notin> set (d # ds)) items"
    by (auto simp: set_delete_def removeAll_filter_not_eq intro: filter_cong)
  finally show ?case .
qed

lemma set_add: "set (add items v) = insert v (set items)"
  by (auto simp: add_def)

lemma set_foldl_add: "set (foldl add items vs) = set items \<union> set vs"
  by (induction vs arbitrary: items) (auto simp: set_add)

lemma set_add_if: "set items \<subseteq> set (add_if c v items)"
  by (auto simp: add_if_def set_add)

lemma set_sunlight_palette: "set items \<subseteq> set (sunlight_palette s items)"
  by (auto simp: sunlight_palette_def set_add)

lemma set_foldl_styles:
  "set (foldl (\<lambda>items style. foldl add items (style_palette style)) items styles')
     = set items \<union> (\<Union>style \<in> set styles'. set (style_palette style))"
  by (induction styles' arbitrary: items) (auto simp: set_foldl_add)

lemma palette_additions_liked: "set (likedPlants a) \<subseteq> set (palette_additions styles' a)"
  by (simp add: palette_additions_def Let_def set_foldl_add)

lemma palette_additions_styles:
  "style \<in> set styles' \<Longrightarrow> set (style_palette style) \<subseteq> set (palette_additions styles' a)"
proof -
  assume "style \<in> set styles'"
  then have "set (style_palette style)
      \<subseteq> set (foldl (\<lambda>items style. foldl add items (style_palette style)) [] styles')"
    by (auto simp: set_foldl_styles)
  also have "\<dots> \<subseteq> set (palette_additions styles' a)"
    unfolding palette_additions_def Let_def set_foldl_add
    by (meson set_add_if set_sunlight_palette order_trans le_supI1)
  finally show ?thesis .
qed

lemma plantPalette_synthesize:
  "plantPalette (synthesizeSummary a) = buildPalette (GardenSummary.styles (synthesizeSummary a)) a"
  by (simp add: synthesizeSummary_def Let_def)

text \<open>
  What the deletion loop does: the palette is what was added without the entries equal
  to the name of a disliked plant. The suggestion strings are other entries.
\<close>

lemma buildPalette_deletes_names:
  "buildPalette styles' a = filter (\<lambda>v. v \<notin> set (dislikedPlants a)) (palette_additions styles' a)
   \<and> set (likedPlants a) \<subseteq> set (palette_additions styles' a)
   \<and> (style \<in> set styles' \<longrightarrow> set (style_palette style) \<subseteq> set (palette_additions styles' a))
   \<and> (d \<in> set (dislikedPlants a) \<longrightarrow> d \<notin> set (plantPalette (synthesizeSummary a)))"
  by (simp add: plantPalette_synthesize buildPalette_def foldl_set_delete
      palette_additions_liked palette_additions_styles)

text \<open>
  Claim C1, at an input where the code leaves it. The claim: every disliked plant is
  removed after the additions, and the removal excludes the palette entries derived
  from that plant, so with \<open>Roses\<close> disliked and \<open>Cottage Romantic\<close> selected the
  palette has no entry about roses, the suggestion string of that style included. The
  code, under its comment \<open>Respect likes/dislikes\<close>, deletes only the entry equal to the
  name. For the user messages \<open>I dislike roses\<close>, \<open>Cottage & romantic\<close> and
  \<open>that's all\<close> the conversation is complete, \<open>Roses\<close> is the disliked plant,
  \<open>Cottage Romantic\<close> is the style of the summary, the note says \<open>Avoid: Roses\<close>, and
  the palette still holds \<open>Roses and climbers: David Austin roses, Clematis\<close>: it is
  the palette of the same conversation without the dislike.
\<close>

theorem C1_disliked_roses_still_suggested:
  "done_flag (runAgent ex_dislike_roses)
   \<and> summary (runAgent ex_dislike_roses) = Some (synthesizeSummary (analyze ex_dislike_roses))
   \<and> dislikedPlants (analyze ex_dislike_roses) = [''Roses'']
   \<and> GardenSummary.styles (synthesizeSummary (analyze ex_dislike_roses)) = [''Cottage Romantic'']
   \<and> notes_list (synthesizeSummary (analyze ex_dislike_roses)) = [''Avoid: Roses'']
   \<and> plantPalette (synthesizeSummary (analyze ex_dislike_roses)) =
       [''Perennials: Lavender, Nepeta, Salvia, Echinacea, Foxglove'',
        ''Roses and climbers: David Austin roses, Clematis'',
        ''Soft grasses: Deschampsia, Stipa tenuissima'']
   \<and> dislikedPlants (analyze ex_no_dislike) = []
   \<and> plantPalette (synthesizeSummary (analyze ex_no_dislike)) =
       plantPalette (synthesizeSummary (analyze ex_dislike_roses))"
  by code_simp

section \<open>Conversations without user messages\<close>

lemma user_text_no_user: "filter (\<lambda>m. role m = User) ms = [] \<Longrightarrow> user_text ms = []"
  by (simp add: user_text_def)

lemma analyze_no_text: "user_text ms = [] \<Longrightarrow> analyze ms = no_signal"
  by (simp add: analyze_def no_signal_def Let_def score_styles_sum STYLE_KEYWORDS_def
      collect_words_def MOOD_WORDS_def USAGE_WORDS_def CONSTRAINT_WORDS_def js_includes_def
      find_maintenance_def test_any_def find_sunlight_def SUN_MAP_def find_climate_def
      CLIMATE_WORDS_def find_liked_def find_disliked_def liked_syn_def disliked_syn_def
      PLANT_SYNONYMS_def)

text \<open>
  Claim C6, as the code has it. For a conversation with no user message \<open>analyze\<close>
  returns the Analysis with null maintenance, sunlight and climate, no kids or pets, no
  mood, usage or constraint word, no liked or disliked plant, and the score 0 for every
  style; and when such a conversation is not complete and \<open>plants\<close> is not among the
  asked keys, the next question is the one about plants.
\<close>

theorem C6_no_user_messages:
  "filter (\<lambda>m. role m = User) ms = [] \<Longrightarrow>
     analyze ms = no_signal
     \<and> (\<not> done_flag (runAgent ms) \<and> ''plants'' \<notin> set (getAskedKeys ms)
          \<longrightarrow> chooseNextKey (getAskedKeys ms) (analyze ms) = Plants
            \<and> nextQuestion (runAgent ms) = Some (QUESTIONS_text Plants))"
proof -
  assume "filter (\<lambda>m. role m = User) ms = []"
  then have a: "analyze ms = no_signal"
    by (simp add: user_text_no_user analyze_no_text)
  have "chooseNextKey asked no_signal = Plants" if "''plants'' \<notin> set asked" for asked
    using that by (simp add: chooseNextKey_def chooseNextKey_exit_def no_signal_def Let_def)
  with a show ?thesis
    by (simp add: runAgent_def Let_def)
qed

theorem C6_no_user_messages_witness:
  "filter (\<lambda>m. role m = User) ex_feels_asked = []
   \<and> analyze ex_feels_asked = no_signal
   \<and> \<not> done_flag (runAgent ex_feels_asked)
   \<and> ''plants'' \<notin> set (getAskedKeys ex_feels_asked)
   \<and> chooseNextKey (getAskedKeys ex_feels_asked) (analyze ex_feels_asked) = Plants
   \<and> nextQuestion (runAgent ex_feels_asked) = Some (QUESTIONS_text Plants)"
proof -
  have h1: "filter (\<lambda>m. role m = User) ex_feels_asked = []" by code_simp
  have h2: "\<not> done_flag (runAgent ex_feels_asked)" by code_simp
  have h3: "''plants'' \<notin> set (getAskedKeys ex_feels_asked)" by code_simp
  from h1 h2 h3 C6_no_user_messages [OF h1] show ?thesis by blast
qed

text \<open>
  Claim C6 as stated fails: a conversation with no user message in which the
  question about plants has been asked is not complete, and its next question is the
  one about the sun.
\<close>

theorem C6_plants_asked_next_is_sun:
  "filter (\<lambda>m. role m = User) ex_plants_asked = []
   \<and> \<not> done_flag (runAgent ex_plants_asked)
   \<and> chooseNextKey (getAskedKeys ex_plants_asked) (analyze ex_plants_asked) = Sun
   \<and> nextQuestion (runAgent ex_plants_asked) = Some (QUESTIONS_text Sun)"
  by code_simp

section \<open>Completion\<close>

lemma runAgent_result:
  "runAgent ms =
     (if done_flag (runAgent ms)
      then \<lparr> done_flag = True, nextQuestion = None,
             summary = Some (synthesizeSummary (analyze ms)) \<rparr>
      else \<lparr> done_flag = False,
             nextQuestion = Some (QUESTIONS_text (chooseNextKey (getAskedKeys ms) (analyze ms))),
             summary = None \<rparr>)"
  by (simp add: runAgent_def Let_def)

lemma runAgent_thats_all:
  "done_flag (runAgent [user_says (''ok that'' @ [CHR 0x27] @ ''s all'')])"
  by code_simp

text \<open>
  Claim C3, at an input where the code leaves it. The six assistant messages of
  \<open>ex_inherited\<close> carry the tags \<open>Q-constructor:\<close>, \<open>Q-toString:\<close>, \<open>Q-valueOf:\<close>,
  \<open>Q-hasOwnProperty:\<close>, \<open>Q-isPrototypeOf:\<close> and \<open>Q-toLocaleString:\<close>. None of the names is
  a question key and there is no user text, yet \<open>key in QUESTIONS\<close> holds for each of
  them, the set of the asked keys gets six elements, and \<open>runAgent\<close> returns
  \<open>done = true\<close>.
\<close>

theorem C3_done_by_inherited_names:
  "done_flag (runAgent ex_inherited)
   \<and> \<not> test_any END_PHRASES (user_text ex_inherited)
   \<and> filter (\<lambda>key. key \<in> set QUESTIONS_keys) (getAskedKeys ex_inherited) = []
   \<and> length (getAskedKeys ex_inherited) = 6"
  by code_simp

end
